theory Spec2Isabelle
  imports Main "HOL-Library.Sublist"
begin

section \<open>Log levels, label tables and the compiled-in cutoff\<close>

text \<open>
  \<^verbatim>\<open>enum class log_level : uint8_t { TRACE = 0, DEBUG = 1, INFO = 2, WARN = 3, ERROR = 4 }\<close>.
  Levels are only ever compared, so the underlying value is a \<open>nat\<close>.
\<close>

datatype log_level = TRACE | DEBUG | INFO | WARN | ERROR

fun level_code :: "log_level \<Rightarrow> nat" where
  "level_code TRACE = 0"
| "level_code DEBUG = 1"
| "level_code INFO = 2"
| "level_code WARN = 3"
| "level_code ERROR = 4"

text \<open>
  The two \<^verbatim>\<open>unordered_map<log_level, std::string>\<close> tables. Both hold all five
  levels, so \<^verbatim>\<open>find(level)->second\<close> is a total lookup. \<open>CHR 0x1B\<close> is the escape
  character \<^verbatim>\<open>\x1b\<close>.
\<close>

fun uncolored :: "log_level \<Rightarrow> string" where
  "uncolored ERROR = '' [ERROR] ''"
| "uncolored WARN = '' [WARN] ''"
| "uncolored INFO = '' [INFO] ''"
| "uncolored DEBUG = '' [DEBUG] ''"
| "uncolored TRACE = '' [TRACE] ''"

fun colored :: "log_level \<Rightarrow> string" where
  "colored ERROR = '' '' @ CHR 0x1B # ''[31;1m[ERROR]'' @ CHR 0x1B # ''[0m ''"
| "colored WARN = '' '' @ CHR 0x1B # ''[33;1m[WARN]'' @ CHR 0x1B # ''[0m ''"
| "colored INFO = '' '' @ CHR 0x1B # ''[32;1m[INFO]'' @ CHR 0x1B # ''[0m ''"
| "colored DEBUG = '' '' @ CHR 0x1B # ''[34;1m[DEBUG]'' @ CHR 0x1B # ''[0m ''"
| "colored TRACE = '' '' @ CHR 0x1B # ''[37;1m[TRACE]'' @ CHR 0x1B # ''[0m ''"

text \<open>
  The preprocessor chain that fixes \<^verbatim>\<open>LOG_LEVEL_CUTOFF\<close>, as a function of the set of
  macros defined at build time. The first branch that matches wins. For
  \<^verbatim>\<open>LOGGING_LEVEL_NONE\<close> the source writes \<^verbatim>\<open>log_level::ERROR + 1\<close>, one above
  the highest level.
\<close>

datatype build_flag =
    LOGGING_LEVEL_ALL | LOGGING_LEVEL_TRACE | LOGGING_LEVEL_DEBUG
  | LOGGING_LEVEL_WARN | LOGGING_LEVEL_ERROR | LOGGING_LEVEL_NONE

definition LOG_LEVEL_CUTOFF :: "build_flag set \<Rightarrow> nat" where
  "LOG_LEVEL_CUTOFF D =
     (if LOGGING_LEVEL_ALL \<in> D \<or> LOGGING_LEVEL_TRACE \<in> D then level_code TRACE
      else if LOGGING_LEVEL_DEBUG \<in> D then level_code DEBUG
      else if LOGGING_LEVEL_WARN \<in> D then level_code WARN
      else if LOGGING_LEVEL_ERROR \<in> D then level_code ERROR
      else if LOGGING_LEVEL_NONE \<in> D then level_code ERROR + 1
      else level_code INFO)"

section \<open>The environment of the process\<close>

text \<open>
  Everything the logger does to the outside is an event appended to a trace: taking and
  releasing the logger's mutex, writes and flushes of \<^verbatim>\<open>std::cout\<close>, and the opens,
  writes, flushes and closes of the log file (named by its path).
\<close>

datatype event =
    Lock | Unlock
  | Cout_write string | Cout_flush
  | File_open string | File_open_refused string
  | File_write string string | File_flush string | File_close string

text \<open>The fields of \<^verbatim>\<open>std::tm\<close> that \<^verbatim>\<open>timestamp\<close> reads.\<close>

record tm =
  tm_year :: int
  tm_mon :: int
  tm_mday :: int
  tm_hour :: int
  tm_min :: int
  tm_sec :: int

text \<open>
  The world the code runs in. \<open>clock w k\<close> is what the \<open>k\<close>-th call of
  \<^verbatim>\<open>system_clock::now()\<close> returns, in nanoseconds since the epoch (the tick of
  \<^verbatim>\<open>system_clock\<close> on the POSIX targets the header is written for); \<open>reads\<close> counts the
  calls made so far. \<open>gmtime_r\<close> is the C library's conversion of a \<^verbatim>\<open>time_t\<close> to
  broken-down UTC, \<open>getpid\<close> the process id, and \<open>openable\<close> tells whether the file
  system lets a path be opened for appending.
\<close>

record world =
  events :: "event list"
  clock :: "nat \<Rightarrow> int"
  reads :: nat
  getpid :: int
  gmtime_r :: "int \<Rightarrow> tm"
  openable :: "string \<Rightarrow> bool"

definition emit :: "event \<Rightarrow> world \<Rightarrow> world" where
  "emit e w = w\<lparr>events := events w @ [e]\<rparr>"

definition system_clock_now :: "world \<Rightarrow> int \<times> world" where
  "system_clock_now w = (clock w (reads w), w\<lparr>reads := Suc (reads w)\<rparr>)"

section \<open>Number formatting\<close>

definition digit :: "nat \<Rightarrow> char" where
  "digit d = ''0123456789'' ! d"

fun digits10 :: "nat \<Rightarrow> string" where
  "digits10 n = (if n < 10 then [digit n] else digits10 (n div 10) @ [digit (n mod 10)])"

declare digits10.simps [simp del]

text \<open>\<^verbatim>\<open>std::to_string(int)\<close>.\<close>

definition to_string :: "int \<Rightarrow> string" where
  "to_string i = (if i < 0 then CHR ''-'' # digits10 (nat (- i)) else digits10 (nat i))"

definition pad0 :: "nat \<Rightarrow> string \<Rightarrow> string" where
  "pad0 width s = replicate (width - length s) CHR ''0'' @ s"

text \<open>\<^verbatim>\<open>%0Nd\<close>: zero padding to the width, the sign counted in the width.\<close>

definition printf_0d :: "nat \<Rightarrow> int \<Rightarrow> string" where
  "printf_0d width v =
     (if v < 0 then CHR ''-'' # pad0 (width - 1) (digits10 (nat (- v)))
      else pad0 width (digits10 (nat v)))"

text \<open>
  \<^verbatim>\<open>%09.6f\<close> of a number of seconds, given exactly in nanoseconds: six decimals, zero
  padded to nine characters with the sign. The source holds the value in a
  \<^verbatim>\<open>double\<close>; the rounding to microseconds is done here on the exact value, half away
  from zero, which agrees with the \<^verbatim>\<open>double\<close> except possibly at an exact half
  microsecond.
\<close>

definition printf_09_6f :: "int \<Rightarrow> string" where
  "printf_09_6f ns =
     (let u = nat ((\<bar>ns\<bar> + 500) div 1000);
          body = digits10 (u div 1000000) @ ''.'' @ pad0 6 (digits10 (u mod 1000000))
      in if ns < 0 then CHR ''-'' # pad0 8 body else pad0 9 body)"

section \<open>timestamp\<close>

text \<open>
  \<^verbatim>\<open>system_clock::to_time_t\<close> is a \<^verbatim>\<open>duration_cast\<close> to seconds: integer division
  that truncates towards zero.
\<close>

definition to_time_t :: "int \<Rightarrow> int" where
  "to_time_t tp = (if tp < 0 then - ((- tp) div 1000000000) else tp div 1000000000)"

definition from_time_t :: "int \<Rightarrow> int" where
  "from_time_t tt = tt * 1000000000"

text \<open>
  The \<^verbatim>\<open>sprintf\<close> writes into a string of 26 characters, which is what is returned:
  the first 26 characters of the formatted text. (The format has a minimal width of 26;
  a longer text would overrun the buffer in the source.)
\<close>

definition timestamp :: "world \<Rightarrow> string \<times> world" where
  "timestamp w =
     (let (tp, w1) = system_clock_now w;
          tt = to_time_t tp;
          gmt = gmtime_r w1 tt;
          fractional_seconds = (tp - from_time_t tt) + tm_sec gmt * 1000000000;
          buffer = printf_0d 4 (tm_year gmt + 1900) @ ''/'' @ printf_0d 2 (tm_mon gmt + 1) @ ''/''
                   @ printf_0d 2 (tm_mday gmt) @ '' '' @ printf_0d 2 (tm_hour gmt) @ '':''
                   @ printf_0d 2 (tm_min gmt) @ '':'' @ printf_09_6f fractional_seconds
      in (take 26 buffer, w1))"

section \<open>Exceptions and configuration\<close>

text \<open>
  The exceptions the code can meet. \<open>std_exception\<close> is a plain \<^verbatim>\<open>std::exception\<close>:
  what \<^verbatim>\<open>throw e\<close> throws when \<^verbatim>\<open>e\<close> was caught as \<^verbatim>\<open>std::exception&\<close>.
\<close>

datatype error =
    runtime_error string | invalid_argument | out_of_range | ios_failure | std_exception

type_synonym logging_config_t = "string \<rightharpoonup> string"

subsection \<open>std::stoul\<close>

text \<open>
  \<^verbatim>\<open>std::stoul(str)\<close> in base 10, as \<^verbatim>\<open>strtoul\<close> does it: leading white space is
  skipped, one sign is accepted, the longest run of digits is read and whatever follows
  is ignored. No digit is \<^verbatim>\<open>invalid_argument\<close>, a value above \<^verbatim>\<open>ULONG_MAX\<close> is
  \<^verbatim>\<open>out_of_range\<close>, a minus sign negates in \<^verbatim>\<open>unsigned long\<close> (64 bits).
\<close>

definition isspace :: "char \<Rightarrow> bool" where
  "isspace c = (c \<in> set [CHR '' '', CHR 0x09, CHR 0x0A, CHR 0x0B, CHR 0x0C, CHR 0x0D])"

definition isdigit :: "char \<Rightarrow> bool" where
  "isdigit c = (c \<in> set ''0123456789'')"

definition digit_value :: "char \<Rightarrow> nat" where
  "digit_value c = of_char c - 48"

definition decimal :: "string \<Rightarrow> nat" where
  "decimal ds = foldl (\<lambda>acc c. acc * 10 + digit_value c) 0 ds"

definition ULONG_MAX :: nat where
  "ULONG_MAX = 18446744073709551615"

definition stoul :: "string \<Rightarrow> error + nat" where
  "stoul str =
     (let s1 = dropWhile isspace str;
          neg = (s1 \<noteq> [] \<and> hd s1 = CHR ''-'');
          s2 = (if s1 \<noteq> [] \<and> (hd s1 = CHR ''-'' \<or> hd s1 = CHR ''+'') then tl s1 else s1);
          ds = takeWhile isdigit s2
      in if ds = [] then Inl invalid_argument
         else if ULONG_MAX < decimal ds then Inl out_of_range
         else Inr (if neg then (ULONG_MAX + 1 - decimal ds) mod (ULONG_MAX + 1) else decimal ds))"

text \<open>
  Arithmetic of \<^verbatim>\<open>std::chrono\<close> is on 64-bit signed counts. \<open>wrap64\<close> is the value a
  count has after the two's complement wrap-around of the target.
\<close>

definition wrap64 :: "int \<Rightarrow> int" where
  "wrap64 x = (x + 9223372036854775808) mod 18446744073709551616 - 9223372036854775808"

text \<open>\<^verbatim>\<open>std::chrono::seconds(unsigned long)\<close>: the count converted to 64-bit signed.\<close>

definition seconds :: "nat \<Rightarrow> int" where
  "seconds n = wrap64 (int n)"

section \<open>std::ofstream\<close>

text \<open>
  The state of the stream that the logger can observe: the path of the file it has open,
  whether \<^verbatim>\<open>failbit\<close> or \<^verbatim>\<open>badbit\<close> is set, and whether the exception mask
  (\<^verbatim>\<open>exceptions()\<close>) makes setting them throw. A default-constructed stream has no open
  file, no error bit and an empty exception mask.
\<close>

record ofstream =
  opened :: "string option"
  failed :: bool
  exceptions :: bool

definition ofstream_init :: ofstream where
  "ofstream_init = \<lparr>opened = None, failed = False, exceptions = False\<rparr>"

text \<open>\<^verbatim>\<open>setstate(failbit)\<close> or \<^verbatim>\<open>setstate(badbit)\<close>: throws only under the mask.\<close>

definition setstate :: "ofstream \<Rightarrow> world \<Rightarrow> error option \<times> ofstream \<times> world" where
  "setstate f w = ((if exceptions f then Some ios_failure else None), f\<lparr>failed := True\<rparr>, w)"

text \<open>\<^verbatim>\<open>close()\<close>: closing a stream that has no open file sets \<^verbatim>\<open>failbit\<close>.\<close>

definition ofstream_close :: "ofstream \<Rightarrow> world \<Rightarrow> error option \<times> ofstream \<times> world" where
  "ofstream_close f w =
     (case opened f of
        Some p \<Rightarrow> (None, f\<lparr>opened := None\<rparr>, emit (File_close p) w)
      | None \<Rightarrow> setstate f w)"

text \<open>
  \<^verbatim>\<open>open(name, out | app)\<close>: fails when a file is already open or the file system
  refuses; success clears the error bits.
\<close>

definition ofstream_open :: "ofstream \<Rightarrow> string \<Rightarrow> world \<Rightarrow> error option \<times> ofstream \<times> world" where
  "ofstream_open f name w =
     (if opened f \<noteq> None then setstate f w
      else if openable w name
        then (None, f\<lparr>opened := Some name, failed := False\<rparr>, emit (File_open name) w)
      else setstate f (emit (File_open_refused name) w))"

text \<open>
  \<^verbatim>\<open>file << message\<close>: a stream with an error bit writes nothing; a stream without an
  open file cannot take characters and sets \<^verbatim>\<open>badbit\<close>. Writes to an open file are
  taken to succeed.
\<close>

definition ofstream_write :: "ofstream \<Rightarrow> string \<Rightarrow> world \<Rightarrow> error option \<times> ofstream \<times> world" where
  "ofstream_write f s w =
     (if failed f then setstate f w
      else case opened f of
        Some p \<Rightarrow> (None, f, emit (File_write p s) w)
      | None \<Rightarrow> if s = [] then (None, f, w) else setstate f w)"

definition ofstream_flush :: "ofstream \<Rightarrow> world \<Rightarrow> error option \<times> ofstream \<times> world" where
  "ofstream_flush f w =
     (if failed f then (None, f, w)
      else case opened f of
        Some p \<Rightarrow> (None, f, emit (File_flush p) w)
      | None \<Rightarrow> (None, f, w))"

section \<open>The loggers\<close>

subsection \<open>std\_out\_logger\<close>

text \<open>
  The object holds its own copy of one of the two label tables, chosen by the presence of
  the key \<^verbatim>\<open>color\<close>.
\<close>

record std_out_logger =
  levels :: "log_level \<Rightarrow> string"

definition std_out_logger_ctor :: "logging_config_t \<Rightarrow> std_out_logger" where
  "std_out_logger_ctor config =
     \<lparr>levels = (if config ''color'' \<noteq> None then colored else uncolored)\<rparr>"

text \<open>\<^verbatim>\<open>log(message)\<close>: one insertion into \<^verbatim>\<open>std::cout\<close>, then a flush.\<close>

definition std_out_logger_log :: "string \<Rightarrow> world \<Rightarrow> world" where
  "std_out_logger_log message w = emit Cout_flush (emit (Cout_write message) w)"

text \<open>\<^verbatim>\<open>log(message, level)\<close>.\<close>

definition std_out_logger_log_level ::
  "build_flag set \<Rightarrow> std_out_logger \<Rightarrow> string \<Rightarrow> log_level \<Rightarrow> world \<Rightarrow> world" where
  "std_out_logger_log_level D l message level w =
     (if level_code level < LOG_LEVEL_CUTOFF D then w
      else
        let (ts, w1) = timestamp w;
            output = ts @ ('' ['' @ to_string (getpid w1) @ '']'') @ levels l level
                     @ message @ [CHR 0x0A]
        in std_out_logger_log output w1)"

subsection \<open>file\_logger\<close>

text \<open>
  \<open>reopen_interval\<close> is a count of seconds, \<open>last_reopen\<close> a time point in nanoseconds
  since the epoch.
\<close>

record file_logger =
  file_name :: string
  "file" :: ofstream
  reopen_interval :: int
  last_reopen :: int

text \<open>
  \<^verbatim>\<open>now - last_reopen > reopen_interval\<close>: the interval is converted to nanoseconds for
  the comparison.
\<close>

definition reopen_due :: "int \<Rightarrow> file_logger \<Rightarrow> bool" where
  "reopen_due now l =
     (wrap64 (reopen_interval l * 1000000000) < wrap64 (now - last_reopen l))"

text \<open>
  \<^verbatim>\<open>reopen()\<close>. The result is the exception that leaves the function (if any), the
  object as the call leaves it, and the world. An exception of the first \<^verbatim>\<open>close\<close>
  is swallowed by \<^verbatim>\<open>catch(...)\<close>; an exception of \<^verbatim>\<open>open\<close> is caught, the stream
  closed again and a \<^verbatim>\<open>std::exception\<close> thrown, with the mutex still held.
\<close>

definition reopen :: "file_logger \<Rightarrow> world \<Rightarrow> error option \<times> file_logger \<times> world" where
  "reopen l w =
     (let (now, w1) = system_clock_now w;
          w2 = emit Lock w1
      in if reopen_due now l then
           let l1 = l\<lparr>last_reopen := now\<rparr>;
               (_, f1, w3) = ofstream_close (file l1) w2;
               (e, f2, w4) = ofstream_open f1 (file_name l1) w3
           in (case e of
                 None \<Rightarrow>
                   let (now2, w5) = system_clock_now w4
                   in (None, l1\<lparr>file := f2, last_reopen := now2\<rparr>, emit Unlock w5)
               | Some _ \<Rightarrow>
                   let (_, f3, w5) = ofstream_close f2 w4
                   in (Some std_exception, l1\<lparr>file := f3\<rparr>, w5))
         else (None, l, emit Unlock w2))"

text \<open>
  The constructor. \<open>last_reopen\<close> is default-initialised, which is the epoch. The
  constructed object is lost when the constructor throws.
\<close>

definition file_logger_ctor :: "logging_config_t \<Rightarrow> world \<Rightarrow> (error + file_logger) \<times> world" where
  "file_logger_ctor config w =
     (case config ''file_name'' of
        None \<Rightarrow> (Inl (runtime_error ''No output file provided to file logger''), w)
      | Some name \<Rightarrow>
          (case (case config ''reopen_interval'' of
                   None \<Rightarrow> Inr 300
                 | Some v \<Rightarrow>
                     (case stoul v of
                        Inl _ \<Rightarrow> Inl (runtime_error (v @ '' is not a valid reopen interval''))
                      | Inr n \<Rightarrow> Inr (seconds n))) of
             Inl ex \<Rightarrow> (Inl ex, w)
           | Inr interval \<Rightarrow>
               let l = \<lparr>file_name = to_string (getpid w) @ ''-'' @ name, file = ofstream_init,
                        reopen_interval = interval, last_reopen = 0\<rparr>;
                   (e, l1, w1) = reopen l w
               in (case e of Some ex \<Rightarrow> (Inl ex, w1) | None \<Rightarrow> (Inr l1, w1))))"


text \<open>
  \<^verbatim>\<open>log(message)\<close>: the write and the flush under the mutex, then \<^verbatim>\<open>reopen()\<close>,
  which takes the mutex again. An exception of the write or the flush leaves with the
  mutex held.
\<close>

definition file_logger_log :: "file_logger \<Rightarrow> string \<Rightarrow> world \<Rightarrow> error option \<times> file_logger \<times> world" where
  "file_logger_log l message w =
     (let w1 = emit Lock w;
          (e1, f1, w2) = ofstream_write (file l) message w1
      in case e1 of
           Some ex \<Rightarrow> (Some ex, l\<lparr>file := f1\<rparr>, w2)
         | None \<Rightarrow>
             let (e2, f2, w3) = ofstream_flush f1 w2
             in (case e2 of
                   Some ex \<Rightarrow> (Some ex, l\<lparr>file := f2\<rparr>, w3)
                 | None \<Rightarrow> reopen (l\<lparr>file := f2\<rparr>) (emit Unlock w3)))"

text \<open>\<^verbatim>\<open>log(message, level)\<close>.\<close>

definition file_logger_log_level ::
  "build_flag set \<Rightarrow> file_logger \<Rightarrow> string \<Rightarrow> log_level \<Rightarrow> world
     \<Rightarrow> error option \<times> file_logger \<times> world" where
  "file_logger_log_level D l message level w =
     (if level_code level < LOG_LEVEL_CUTOFF D then (None, l, w)
      else
        let (ts, w1) = timestamp w;
            output = ts @ uncolored level @ message @ [CHR 0x0A]
        in file_logger_log l output w1)"

subsection \<open>The class hierarchy\<close>

text \<open>
  A \<^verbatim>\<open>logger*\<close> points to an object of the base class, whose two \<^verbatim>\<open>log\<close> members do
  nothing, or of one of the two derived classes.
\<close>

datatype logger =
    Null_logger
  | Std_out_logger std_out_logger
  | File_logger file_logger

fun logger_log :: "logger \<Rightarrow> string \<Rightarrow> world \<Rightarrow> error option \<times> logger \<times> world" where
  "logger_log Null_logger message w = (None, Null_logger, w)"
| "logger_log (Std_out_logger l) message w =
     (None, Std_out_logger l, std_out_logger_log message w)"
| "logger_log (File_logger l) message w =
     (let (e, l1, w1) = file_logger_log l message w in (e, File_logger l1, w1))"

fun logger_log_level ::
  "build_flag set \<Rightarrow> logger \<Rightarrow> string \<Rightarrow> log_level \<Rightarrow> world \<Rightarrow> error option \<times> logger \<times> world" where
  "logger_log_level D Null_logger message level w = (None, Null_logger, w)"
| "logger_log_level D (Std_out_logger l) message level w =
     (None, Std_out_logger l, std_out_logger_log_level D l message level w)"
| "logger_log_level D (File_logger l) message level w =
     (let (e, l1, w1) = file_logger_log_level D l message level w in (e, File_logger l1, w1))"

section \<open>The factory\<close>

type_synonym logger_creator = "logging_config_t \<Rightarrow> world \<Rightarrow> (error + logger) \<times> world"

text \<open>
  The registry after the constructor of \<^verbatim>\<open>logger_factory\<close> has run: three
  \<^verbatim>\<open>emplace\<close> calls, which keep the first entry of a key.
\<close>

definition creators :: "string \<rightharpoonup> logger_creator" where
  "creators = map_of
     [('''', \<lambda>config w. (Inr Null_logger, w)),
      (''std_out'', \<lambda>config w. (Inr (Std_out_logger (std_out_logger_ctor config)), w)),
      (''file'', \<lambda>config w.
         (case file_logger_ctor config w of
            (Inl ex, w1) \<Rightarrow> (Inl ex, w1)
          | (Inr l, w1) \<Rightarrow> (Inr (File_logger l), w1)))]"

definition produce :: "logging_config_t \<Rightarrow> world \<Rightarrow> (error + logger) \<times> world" where
  "produce config w =
     (case config ''type'' of
        None \<Rightarrow> (Inl (runtime_error ''Logging factory configuration requires a type of logger''), w)
      | Some t \<Rightarrow>
          (case creators t of
             Some creator \<Rightarrow> creator config w
           | None \<Rightarrow> (Inl (runtime_error (''Couldn't produce logger for type: '' @ t)), w)))"

section \<open>The singleton\<close>

text \<open>
  The state of the process: the world and the function-local static \<^verbatim>\<open>singleton\<close> of
  \<^verbatim>\<open>get_logger\<close>, \<open>None\<close> until its initialisation has completed. C++ initialises such
  a variable when control first passes its declaration, and tries again at the next call
  when the initialiser threw.
\<close>

record process =
  env :: world
  singleton :: "logger option"

definition default_config :: logging_config_t where
  "default_config = [''type'' \<mapsto> ''std_out'', ''color'' \<mapsto> '''']"

definition get_logger :: "logging_config_t \<Rightarrow> process \<Rightarrow> (error + logger) \<times> process" where
  "get_logger config p =
     (case singleton p of
        Some l \<Rightarrow> (Inr l, p)
      | None \<Rightarrow>
          (case produce config (env p) of
             (Inl ex, w1) \<Rightarrow> (Inl ex, p\<lparr>env := w1\<rparr>)
           | (Inr l, w1) \<Rightarrow> (Inr l, p\<lparr>env := w1, singleton := Some l\<rparr>)))"

definition configure :: "logging_config_t \<Rightarrow> process \<Rightarrow> error option \<times> process" where
  "configure config p =
     (case get_logger config p of
        (Inl ex, p1) \<Rightarrow> (Some ex, p1)
      | (Inr _, p1) \<Rightarrow> (None, p1))"

text \<open>
  The free functions \<^verbatim>\<open>log(message, level)\<close> and \<^verbatim>\<open>log(message)\<close>: they fetch the
  singleton with the default configuration and call its member, which may change the
  object.
\<close>

definition log_level_global ::
  "build_flag set \<Rightarrow> string \<Rightarrow> log_level \<Rightarrow> process \<Rightarrow> error option \<times> process" where
  "log_level_global D message level p =
     (case get_logger default_config p of
        (Inl ex, p1) \<Rightarrow> (Some ex, p1)
      | (Inr l, p1) \<Rightarrow>
          let (e, l1, w1) = logger_log_level D l message level (env p1)
          in (e, p1\<lparr>env := w1, singleton := Some l1\<rparr>))"

definition log_global :: "string \<Rightarrow> process \<Rightarrow> error option \<times> process" where
  "log_global message p =
     (case get_logger default_config p of
        (Inl ex, p1) \<Rightarrow> (Some ex, p1)
      | (Inr l, p1) \<Rightarrow>
          let (e, l1, w1) = logger_log l message (env p1)
          in (e, p1\<lparr>env := w1, singleton := Some l1\<rparr>))"

section \<open>Observations and sample environments\<close>

text \<open>The byte strings handed to \<^verbatim>\<open>std::cout\<close> or to the log file, in order.\<close>

fun written :: "event \<Rightarrow> string list" where
  "written (Cout_write s) = [s]"
| "written (File_write p s) = [s]"
| "written e = []"

definition lines_written :: "event list \<Rightarrow> string list" where
  "lines_written evs = concat (map written evs)"

text \<open>How many newline characters a string ends with.\<close>

definition trailing_newlines :: "string \<Rightarrow> nat" where
  "trailing_newlines s = length (takeWhile (\<lambda>c. c = CHR 0x0A) (rev s))"

text \<open>
  The pattern \<^verbatim>\<open>\d{4}/\d{2}/\d{2} \d{2}:\d{2}:\d{2}\.\d{6}\<close>, with \<open>d\<close> for a digit and
  every other character for itself.
\<close>

definition timestamp_pattern :: string where
  "timestamp_pattern = ''dddd/dd/dd dd:dd:dd.dddddd''"

definition matches_pattern :: "string \<Rightarrow> string \<Rightarrow> bool" where
  "matches_pattern pat s =
     list_all2 (\<lambda>p c. if p = CHR ''d'' then isdigit c else c = p) pat s"

text \<open>
  A UTC calendar for the sample environments: seconds since the epoch to broken-down
  time in the proleptic Gregorian calendar, as \<^verbatim>\<open>gmtime_r\<close> computes it. The day
  number is split into a 400-year era and the day of the era, then into the year of the
  era, the day of the year and the month (counted from March).
\<close>

definition tm_of_month :: "int \<Rightarrow> int \<Rightarrow> int \<Rightarrow> int \<Rightarrow> tm" where
  "tm_of_month y doy mp secs =
     \<lparr>tm_year = y + (if mp < 10 then 0 else 1) - 1900,
      tm_mon = (if mp < 10 then mp + 2 else mp - 10),
      tm_mday = doy - (153 * mp + 2) div 5 + 1,
      tm_hour = secs div 3600, tm_min = secs mod 3600 div 60, tm_sec = secs mod 60\<rparr>"

definition tm_of_year :: "int \<Rightarrow> int \<Rightarrow> int \<Rightarrow> int \<Rightarrow> tm" where
  "tm_of_year era doe yoe secs =
     tm_of_month (yoe + era * 400) (doe - (365 * yoe + yoe div 4 - yoe div 100))
       ((5 * (doe - (365 * yoe + yoe div 4 - yoe div 100)) + 2) div 153) secs"

definition tm_of_era_day :: "int \<Rightarrow> int \<Rightarrow> int \<Rightarrow> tm" where
  "tm_of_era_day era doe secs =
     tm_of_year era doe ((doe - doe div 1460 + doe div 36524 - doe div 146096) div 365) secs"

definition utc_gmtime :: "int \<Rightarrow> tm" where
  "utc_gmtime tt =
     tm_of_era_day ((tt div 86400 + 719468) div 146097) ((tt div 86400 + 719468) mod 146097)
       (tt mod 86400)"

text \<open>
  A process with id 4242 whose clock starts at 2026/10/31 01:02:03.123456789 UTC and
  advances by one second from one reading to the next; every path can be opened.
\<close>

definition sample_world :: world where
  "sample_world =
     \<lparr>events = [], clock = (\<lambda>k. 1793408523123456789 + int k * 1000000000), reads = 0,
      getpid = 4242, gmtime_r = utc_gmtime, openable = (\<lambda>p. True)\<rparr>"

text \<open>The same process where no path can be opened (a directory without write access).\<close>

definition sealed_world :: world where
  "sealed_world = sample_world\<lparr>openable := (\<lambda>p. False)\<rparr>"

text \<open>
  A file logger of that process as it is one second after it opened its file, with the
  default interval.
\<close>

definition open_file_logger :: file_logger where
  "open_file_logger =
     \<lparr>file_name = ''4242-test.log'',
      file = \<lparr>opened = Some ''4242-test.log'', failed = False, exceptions = False\<rparr>,
      reopen_interval = 300, last_reopen = 1793408522000000000\<rparr>"

text \<open>That process before the first call of \<^verbatim>\<open>get_logger\<close>.\<close>

definition fresh_process :: process where
  "fresh_process = \<lparr>env = sample_world, singleton = None\<rparr>"

section \<open>Basic facts\<close>

text \<open>Evaluation of the recursive digit printer, one step at a time.\<close>

lemma digits10_small: "n < 10 \<Longrightarrow> digits10 n = [digit n]"
  by (simp add: digits10.simps)

lemma digits10_big: "\<not> n < 10 \<Longrightarrow> digits10 n = digits10 (n div 10) @ [digit (n mod 10)]"
  by (subst digits10.simps) simp

lemmas digits10_eval = digits10_small digits10_big digit_def

lemma printf_09_6f_unfold:
  "printf_09_6f ns =
     (if ns < 0
      then CHR ''-'' # pad0 8 (digits10 (nat ((\<bar>ns\<bar> + 500) div 1000) div 1000000) @ ''.''
             @ pad0 6 (digits10 (nat ((\<bar>ns\<bar> + 500) div 1000) mod 1000000)))
      else pad0 9 (digits10 (nat ((\<bar>ns\<bar> + 500) div 1000) div 1000000) @ ''.''
             @ pad0 6 (digits10 (nat ((\<bar>ns\<bar> + 500) div 1000) mod 1000000))))"
  by (simp add: printf_09_6f_def Let_def)

lemma timestamp_unfold:
  "timestamp w =
     (take 26
        (printf_0d 4 (tm_year (gmtime_r w (to_time_t (clock w (reads w)))) + 1900) @ ''/''
         @ printf_0d 2 (tm_mon (gmtime_r w (to_time_t (clock w (reads w)))) + 1) @ ''/''
         @ printf_0d 2 (tm_mday (gmtime_r w (to_time_t (clock w (reads w))))) @ '' ''
         @ printf_0d 2 (tm_hour (gmtime_r w (to_time_t (clock w (reads w))))) @ '':''
         @ printf_0d 2 (tm_min (gmtime_r w (to_time_t (clock w (reads w))))) @ '':''
         @ printf_09_6f (clock w (reads w) - from_time_t (to_time_t (clock w (reads w)))
             + tm_sec (gmtime_r w (to_time_t (clock w (reads w)))) * 1000000000)),
      w\<lparr>reads := Suc (reads w)\<rparr>)"
  by (simp add: timestamp_def system_clock_now_def Let_def)

lemmas sample_eval =
  sample_world_def to_time_t_def from_time_t_def
  utc_gmtime_def tm_of_era_day_def tm_of_year_def tm_of_month_def
  printf_0d_def printf_09_6f_unfold pad0_def digits10_eval to_string_def

lemma timestamp_world: "snd (timestamp w) = w\<lparr>reads := Suc (reads w)\<rparr>"
  by (simp add: timestamp_unfold)

lemma timestamp_split: "timestamp w = (fst (timestamp w), w\<lparr>reads := Suc (reads w)\<rparr>)"
  by (simp add: timestamp_unfold)


lemma file_logger_log_open:
  assumes "opened (file fl) = Some p" and "\<not> failed (file fl)"
  shows "file_logger_log fl s w =
           reopen fl (w\<lparr>events := events w @ [Lock, File_write p s, File_flush p, Unlock]\<rparr>)"
  using assms
  by (simp add: file_logger_log_def ofstream_write_def ofstream_flush_def emit_def Let_def)

lemma std_out_log_level_emits:
  assumes "\<not> level_code level < LOG_LEVEL_CUTOFF D"
  shows "std_out_logger_log_level D l message level w =
           w\<lparr>reads := Suc (reads w),
             events := events w @
               [Cout_write (fst (timestamp w) @ '' ['' @ to_string (getpid w) @ '']''
                            @ levels l level @ message @ [CHR 0x0A]),
                Cout_flush]\<rparr>"
  using assms
  by (subst std_out_logger_log_level_def, subst timestamp_split)
     (simp add: std_out_logger_log_def emit_def)

lemma file_log_level_passes:
  assumes "\<not> level_code level < LOG_LEVEL_CUTOFF D"
  shows "file_logger_log_level D fl message level w =
           file_logger_log fl (fst (timestamp w) @ uncolored level @ message @ [CHR 0x0A])
             (w\<lparr>reads := Suc (reads w)\<rparr>)"
  using assms
  by (subst file_logger_log_level_def, subst timestamp_split) simp

lemma sample_timestamp: "fst (timestamp sample_world) = ''2026/10/31 01:02:03.123457''"
  by (simp add: timestamp_unfold sample_eval)

lemma sample_pid: "to_string (getpid sample_world) = ''4242''"
  by (simp add: sample_eval)

lemma lines_written_append: "lines_written (xs @ ys) = lines_written xs @ lines_written ys"
  by (simp add: lines_written_def)

lemma lines_written_reopen:
  "lines_written (events (snd (snd (reopen l w)))) = lines_written (events w)"
  by (simp add: reopen_def system_clock_now_def emit_def ofstream_close_def ofstream_open_def
        setstate_def Let_def lines_written_def split: option.splits)

lemma trailing_newlines_line:
  assumes "pre \<noteq> []" and "last pre \<noteq> CHR 0x0A"
  shows "trailing_newlines (pre @ m @ [CHR 0x0A]) = Suc (trailing_newlines m)"
proof -
  let ?P = "\<lambda>c. c = CHR 0x0A"
  have stop: "takeWhile ?P (rev pre) = []"
    using assms by (cases pre rule: rev_cases) simp_all
  have "takeWhile ?P (rev m @ rev pre) = takeWhile ?P (rev m)"
  proof (cases "\<forall>c \<in> set (rev m). ?P c")
    case True
    then have a: "takeWhile ?P (rev m @ rev pre) = rev m @ takeWhile ?P (rev pre)"
      by (intro takeWhile_append2) simp
    have b: "takeWhile ?P (rev m) = rev m"
      using True by (simp add: takeWhile_eq_all_conv)
    show ?thesis
      by (simp only: a b stop append_Nil2)
  next
    case False
    then obtain c where "c \<in> set (rev m)" and "\<not> ?P c"
      by blast
    then show ?thesis
      by (rule takeWhile_append1)
  qed
  then show ?thesis
    by (simp add: trailing_newlines_def)
qed

lemma label_ends_in_blank:
  "uncolored level \<noteq> [] \<and> last (uncolored level) = CHR '' ''
   \<and> colored level \<noteq> [] \<and> last (colored level) = CHR '' ''"
  by (cases level) simp_all

lemma sublist_in_line: "sublist m (pre @ m @ [c])"
  by (metis sublist_appendI append.assoc)

lemma creators_dom: "dom creators = {'''', ''std_out'', ''file''}"
  by (auto simp: creators_def split: if_splits)

lemma creators_unknown:
  "t \<notin> {'''', ''std_out'', ''file''} \<Longrightarrow> creators t = None"
  using creators_dom by blast

lemma reopen_no_throw: "\<not> exceptions (file l) \<Longrightarrow> fst (reopen l w) = None"
  by (simp add: reopen_def system_clock_now_def ofstream_close_def ofstream_open_def
        setstate_def Let_def split: option.splits)

lemma reopen_keeps_mask:
  "\<not> exceptions (file l) \<Longrightarrow> \<not> exceptions (file (fst (snd (reopen l w))))"
  by (simp add: reopen_def system_clock_now_def ofstream_close_def ofstream_open_def
        setstate_def Let_def split: option.splits)

lemma file_logger_ctor_failure:
  assumes "fst (file_logger_ctor config w) = Inl ex"
  shows "snd (file_logger_ctor config w) = w"
proof (cases "config ''file_name''")
  case None
  then show ?thesis by (simp add: file_logger_ctor_def)
next
  case (Some name)
  let ?l = "\<lambda>interval. \<lparr>file_name = to_string (getpid w) @ ''-'' @ name, file = ofstream_init,
                        reopen_interval = interval, last_reopen = 0\<rparr>"
  have nothrow: "fst (reopen (?l interval) w) = None" for interval
    by (rule reopen_no_throw) (simp add: ofstream_init_def)
  show ?thesis
    using assms Some nothrow
    by (auto simp: file_logger_ctor_def Let_def split_def
          split: option.splits sum.splits)
qed

lemma produce_failure:
  assumes "fst (produce config w) = Inl ex"
  shows "snd (produce config w) = w"
proof (cases "config ''type''")
  case None
  then show ?thesis by (simp add: produce_def)
next
  case (Some t)
  consider "t = ''''" | "t = ''std_out''" | "t = ''file''" | "t \<notin> {'''', ''std_out'', ''file''}"
    by blast
  then show ?thesis
  proof cases
    case 3
    have "fst (file_logger_ctor config w) = Inl ex"
      using assms Some 3
      by (cases "file_logger_ctor config w")
         (auto simp: produce_def creators_def split: sum.splits)
    then have "snd (file_logger_ctor config w) = w"
      by (rule file_logger_ctor_failure)
    then show ?thesis
      using Some 3
      by (cases "file_logger_ctor config w")
         (auto simp: produce_def creators_def split: sum.splits)
  next
    case 4
    then show ?thesis
      using Some creators_unknown [of t] by (simp add: produce_def)
  qed (use assms Some in \<open>simp_all add: produce_def creators_def\<close>)
qed


lemma produce_default:
  "produce default_config w = (Inr (Std_out_logger \<lparr>levels = colored\<rparr>), w)"
  by (simp add: produce_def default_config_def creators_def std_out_logger_ctor_def)

lemma get_logger_set:
  "singleton p = Some l \<Longrightarrow> get_logger config p = (Inr l, p)"
  by (simp add: get_logger_def)

lemma get_logger_first:
  assumes "singleton p = None" and "get_logger config p = (Inr l, p1)"
  shows "singleton p1 = Some l"
  using assms
  by (cases "produce config (env p)") (auto simp: get_logger_def split: sum.splits)

lemma wrap64_id: "- 9223372036854775808 \<le> x \<Longrightarrow> x < 9223372036854775808 \<Longrightarrow> wrap64 x = x"
  by (simp add: wrap64_def)



lemma reopen_not_due:
  assumes "\<not> reopen_due (clock w (reads w)) l"
  shows "reopen l w = (None, l, w\<lparr>reads := Suc (reads w), events := events w @ [Lock, Unlock]\<rparr>)"
  using assms
  by (simp add: reopen_def system_clock_now_def emit_def Let_def)










section \<open>Below the cutoff\<close>

text \<open>
  Claim C1. For every message and every level strictly below \<^verbatim>\<open>LOG_LEVEL_CUTOFF\<close>,
  \<^verbatim>\<open>log(message, level)\<close> returns at once with no effect at all, on the standard-output
  logger, on the file logger and through the virtual call on any logger: the world is
  the same afterwards (no event: no lock, no write, no flush, no open or close; no clock
  reading, so no timestamp and no reopen check), the logger object is the same, and no
  exception leaves the call.
\<close>

theorem below_cutoff_no_effect:
  assumes "level_code level < LOG_LEVEL_CUTOFF D"
  shows "std_out_logger_log_level D sl message level w = w
       \<and> file_logger_log_level D fl message level w = (None, fl, w)
       \<and> logger_log_level D lg message level w = (None, lg, w)"
  using assms by (cases lg) (simp_all add: std_out_logger_log_level_def file_logger_log_level_def)

theorem below_cutoff_no_effect_witness:
  "level_code DEBUG < LOG_LEVEL_CUTOFF {}
   \<and> std_out_logger_log_level {} (std_out_logger_ctor default_config) ''hello'' DEBUG sample_world
       = sample_world
   \<and> file_logger_log_level {}
         \<lparr>file_name = ''4242-test.log'', file = ofstream_init, reopen_interval = 0, last_reopen = 0\<rparr>
         ''hello'' DEBUG sample_world
       = (None, \<lparr>file_name = ''4242-test.log'', file = ofstream_init, reopen_interval = 0,
                 last_reopen = 0\<rparr>, sample_world)
   \<and> logger_log_level {} Null_logger ''hello'' DEBUG sample_world = (None, Null_logger, sample_world)"
proof -
  have below: "level_code DEBUG < LOG_LEVEL_CUTOFF {}"
    by (simp add: LOG_LEVEL_CUTOFF_def)
  show ?thesis
    using below below_cutoff_no_effect [OF below] by simp
qed

section \<open>The line that is written\<close>



section \<open>The singleton\<close>

text \<open>
  Claim C3. The first call of \<^verbatim>\<open>get_logger\<close> builds the one global logger with the
  factory from the configuration of that call and keeps it; with no argument the
  configuration is type \<^verbatim>\<open>std_out\<close> with \<^verbatim>\<open>color\<close>, which gives the
  standard-output logger with the colored table. Once the logger exists, every call of
  \<^verbatim>\<open>get_logger\<close> or \<^verbatim>\<open>configure\<close>, whatever its configuration, returns that
  logger and leaves the whole state of the process as it was: the later configuration is
  never applied.
\<close>

theorem singleton_first_call_wins:
  "(singleton p = None \<and> produce config (env p) = (Inr l, w1) \<longrightarrow>
      get_logger config p = (Inr l, p\<lparr>env := w1, singleton := Some l\<rparr>))
   \<and> produce default_config w = (Inr (Std_out_logger \<lparr>levels = colored\<rparr>), w)
   \<and> (singleton p = Some l \<longrightarrow>
        get_logger config2 p = (Inr l, p) \<and> configure config2 p = (None, p))
   \<and> (singleton p = None \<and> get_logger config p = (Inr l, p1) \<longrightarrow>
        get_logger config2 p1 = (Inr l, p1) \<and> configure config2 p1 = (None, p1))"
proof -
  have first: "singleton p = None \<Longrightarrow> produce config (env p) = (Inr l, w1) \<Longrightarrow>
      get_logger config p = (Inr l, p\<lparr>env := w1, singleton := Some l\<rparr>)"
    by (simp add: get_logger_def)
  have later: "get_logger config2 q = (Inr l, q) \<and> configure config2 q = (None, q)"
    if "singleton q = Some l" for q
    using get_logger_set [OF that] by (simp add: configure_def)
  have after: "get_logger config2 p1 = (Inr l, p1) \<and> configure config2 p1 = (None, p1)"
    if "singleton p = None" and "get_logger config p = (Inr l, p1)"
    using later [OF get_logger_first [OF that]] .
  show ?thesis
    using first produce_default later [of p] after by blast
qed

theorem singleton_first_call_wins_witness:
  "get_logger default_config fresh_process
     = (Inr (Std_out_logger \<lparr>levels = colored\<rparr>),
        fresh_process\<lparr>singleton := Some (Std_out_logger \<lparr>levels = colored\<rparr>)\<rparr>)
   \<and> get_logger [''type'' \<mapsto> ''file'', ''file_name'' \<mapsto> ''test.log'']
        (fresh_process\<lparr>singleton := Some (Std_out_logger \<lparr>levels = colored\<rparr>)\<rparr>)
     = (Inr (Std_out_logger \<lparr>levels = colored\<rparr>),
        fresh_process\<lparr>singleton := Some (Std_out_logger \<lparr>levels = colored\<rparr>)\<rparr>)
   \<and> configure [''type'' \<mapsto> ''file'', ''file_name'' \<mapsto> ''test.log'']
        (fresh_process\<lparr>singleton := Some (Std_out_logger \<lparr>levels = colored\<rparr>)\<rparr>)
     = (None, fresh_process\<lparr>singleton := Some (Std_out_logger \<lparr>levels = colored\<rparr>)\<rparr>)"
proof -
  let ?l = "Std_out_logger \<lparr>levels = colored\<rparr>"
  have none: "singleton fresh_process = None"
    by (simp add: fresh_process_def)
  have made: "produce default_config (env fresh_process) = (Inr ?l, env fresh_process)"
    using singleton_first_call_wins [of fresh_process default_config ?l "env fresh_process"
            "env fresh_process"]
    by simp
  have first: "get_logger default_config fresh_process
                 = (Inr ?l, fresh_process\<lparr>singleton := Some ?l\<rparr>)"
    using singleton_first_call_wins [of fresh_process default_config ?l "env fresh_process"]
      none made
    by simp
  show ?thesis
    using first none
      singleton_first_call_wins [of fresh_process default_config ?l "env fresh_process"
        "env fresh_process" "[''type'' \<mapsto> ''file'', ''file_name'' \<mapsto> ''test.log'']"
        "fresh_process\<lparr>singleton := Some ?l\<rparr>"]
    by simp
qed

section \<open>Constructing a file logger\<close>





section \<open>The factory\<close>

text \<open>
  Claim C6. \<^verbatim>\<open>logger_factory::produce\<close> throws a configuration error when the key
  \<^verbatim>\<open>type\<close> is absent, throws the unknown-type error (whose text names the type asked
  for) when no constructor is registered under the value of \<^verbatim>\<open>type\<close>, and otherwise
  returns what the registered constructor returns. Exactly three names are registered:
  the empty name for the base-class logger, whose two \<^verbatim>\<open>log\<close> members do nothing,
  \<^verbatim>\<open>std_out\<close> and \<^verbatim>\<open>file\<close>.
\<close>

theorem produce_dispatch:
  "(config ''type'' = None \<longrightarrow>
      produce config w
        = (Inl (runtime_error ''Logging factory configuration requires a type of logger''), w))
   \<and> (config ''type'' = Some t \<and> t \<notin> {'''', ''std_out'', ''file''} \<longrightarrow>
      produce config w
        = (Inl (runtime_error (''Couldn't produce logger for type: '' @ t)), w))
   \<and> (config ''type'' = Some '''' \<longrightarrow> produce config w = (Inr Null_logger, w))
   \<and> (config ''type'' = Some ''std_out'' \<longrightarrow>
      produce config w = (Inr (Std_out_logger (std_out_logger_ctor config)), w))
   \<and> (config ''type'' = Some ''file'' \<longrightarrow>
      produce config w
        = (case file_logger_ctor config w of
             (Inl ex, w1) \<Rightarrow> (Inl ex, w1)
           | (Inr l, w1) \<Rightarrow> (Inr (File_logger l), w1)))
   \<and> dom creators = {'''', ''std_out'', ''file''}
   \<and> logger_log Null_logger message w = (None, Null_logger, w)
   \<and> logger_log_level D Null_logger message level w = (None, Null_logger, w)"
proof -
  have absent: "config ''type'' = None \<Longrightarrow>
      produce config w
        = (Inl (runtime_error ''Logging factory configuration requires a type of logger''), w)"
    by (simp add: produce_def)
  have unknown: "config ''type'' = Some t \<Longrightarrow> t \<notin> {'''', ''std_out'', ''file''} \<Longrightarrow>
      produce config w
        = (Inl (runtime_error (''Couldn't produce logger for type: '' @ t)), w)"
    using creators_unknown [of t] by (simp add: produce_def)
  have known: "config ''type'' = Some '''' \<Longrightarrow> produce config w = (Inr Null_logger, w)"
    "config ''type'' = Some ''std_out'' \<Longrightarrow>
      produce config w = (Inr (Std_out_logger (std_out_logger_ctor config)), w)"
    "config ''type'' = Some ''file'' \<Longrightarrow>
      produce config w
        = (case file_logger_ctor config w of
             (Inl ex, w1) \<Rightarrow> (Inl ex, w1)
           | (Inr l, w1) \<Rightarrow> (Inr (File_logger l), w1))"
    by (simp_all add: produce_def creators_def)
  show ?thesis
    using absent unknown known creators_dom by simp
qed

theorem produce_dispatch_witness:
  "produce Map.empty sample_world
     = (Inl (runtime_error ''Logging factory configuration requires a type of logger''),
        sample_world)
   \<and> produce [''type'' \<mapsto> ''nonexistent''] sample_world
     = (Inl (runtime_error ''Couldn't produce logger for type: nonexistent''), sample_world)
   \<and> produce [''type'' \<mapsto> ''''] sample_world = (Inr Null_logger, sample_world)
   \<and> produce [''type'' \<mapsto> ''std_out''] sample_world
     = (Inr (Std_out_logger \<lparr>levels = uncolored\<rparr>), sample_world)
   \<and> produce [''type'' \<mapsto> ''file''] sample_world
     = (Inl (runtime_error ''No output file provided to file logger''), sample_world)"
proof -
  have std: "std_out_logger_ctor [''type'' \<mapsto> ''std_out''] = \<lparr>levels = uncolored\<rparr>"
    by (simp add: std_out_logger_ctor_def)
  have fil: "file_logger_ctor [''type'' \<mapsto> ''file''] sample_world
               = (Inl (runtime_error ''No output file provided to file logger''), sample_world)"
    by (simp add: file_logger_ctor_def)
  show ?thesis
    using produce_dispatch [of Map.empty sample_world]
      produce_dispatch [of "[''type'' \<mapsto> ''nonexistent'']" sample_world "''nonexistent''"]
      produce_dispatch [of "[''type'' \<mapsto> '''']" sample_world]
      produce_dispatch [of "[''type'' \<mapsto> ''std_out'']" sample_world]
      produce_dispatch [of "[''type'' \<mapsto> ''file'']" sample_world]
    by (simp add: std fil)
qed

section \<open>Newline and message in the written line\<close>

text \<open>
  Claim C8, as amended. For every message and every level at or above the cutoff, the
  line written by \<^verbatim>\<open>log(message, level)\<close> is a prefix (timestamp, process id on
  standard output, level label) followed by the literal message and by one newline
  character. So the line contains the message as a contiguous substring, and it ends with
  one newline more than the message does: with exactly one when the message does not end
  with a newline. The standard-output logger always writes the line; the file logger
  writes it when its stream is open and without error.

  As stated, the claim fails for a message that itself ends with a newline: the line then
  ends with two.
\<close>

theorem line_holds_message_then_newline:
  assumes "LOG_LEVEL_CUTOFF D \<le> level_code level"
  shows "lines_written (events (std_out_logger_log_level D (std_out_logger_ctor config) message
                                  level w))
           = lines_written (events w)
             @ [(fst (timestamp w) @ '' ['' @ to_string (getpid w) @ '']''
                 @ levels (std_out_logger_ctor config) level) @ message @ [CHR 0x0A]]
       \<and> sublist message
            ((fst (timestamp w) @ '' ['' @ to_string (getpid w) @ '']''
              @ levels (std_out_logger_ctor config) level) @ message @ [CHR 0x0A])
       \<and> trailing_newlines
            ((fst (timestamp w) @ '' ['' @ to_string (getpid w) @ '']''
              @ levels (std_out_logger_ctor config) level) @ message @ [CHR 0x0A])
           = Suc (trailing_newlines message)
       \<and> (opened (file fl) \<noteq> None \<and> \<not> failed (file fl) \<longrightarrow>
            lines_written (events (snd (snd (file_logger_log_level D fl message level w))))
              = lines_written (events w)
                @ [(fst (timestamp w) @ uncolored level) @ message @ [CHR 0x0A]])
       \<and> sublist message ((fst (timestamp w) @ uncolored level) @ message @ [CHR 0x0A])
       \<and> trailing_newlines ((fst (timestamp w) @ uncolored level) @ message @ [CHR 0x0A])
           = Suc (trailing_newlines message)"
proof -
  have ge: "\<not> level_code level < LOG_LEVEL_CUTOFF D"
    using assms by simp
  let ?lab = "levels (std_out_logger_ctor config) level"
  have lab: "?lab \<noteq> [] \<and> last ?lab = CHR '' ''"
    using label_ends_in_blank [of level] by (simp add: std_out_logger_ctor_def)
  have std: "lines_written (events (std_out_logger_log_level D (std_out_logger_ctor config)
                                      message level w))
           = lines_written (events w)
             @ [(fst (timestamp w) @ '' ['' @ to_string (getpid w) @ '']'' @ ?lab)
                @ message @ [CHR 0x0A]]"
    by (simp add: std_out_log_level_emits [OF ge] lines_written_def)
  have std_nl: "trailing_newlines
            ((fst (timestamp w) @ '' ['' @ to_string (getpid w) @ '']'' @ ?lab)
             @ message @ [CHR 0x0A])
           = Suc (trailing_newlines message)"
    using lab by (intro trailing_newlines_line) simp_all
  have fil_nl: "trailing_newlines ((fst (timestamp w) @ uncolored level) @ message @ [CHR 0x0A])
           = Suc (trailing_newlines message)"
    using label_ends_in_blank [of level] by (intro trailing_newlines_line) simp_all
  have fil: "lines_written (events (snd (snd (file_logger_log_level D fl message level w))))
              = lines_written (events w)
                @ [(fst (timestamp w) @ uncolored level) @ message @ [CHR 0x0A]]"
    if "opened (file fl) \<noteq> None" and "\<not> failed (file fl)"
  proof -
    from that obtain p where p: "opened (file fl) = Some p"
      by blast
    show ?thesis
      by (simp add: file_log_level_passes [OF ge] file_logger_log_open [OF p that(2)]
            lines_written_reopen)
         (simp add: lines_written_def)
  qed
  show ?thesis
    using std std_nl fil fil_nl sublist_in_line by blast
qed


theorem line_holds_message_then_newline_witness:
  "LOG_LEVEL_CUTOFF {} \<le> level_code ERROR
   \<and> lines_written (events (std_out_logger_log_level {} (std_out_logger_ctor default_config)
                               ''hello'' ERROR sample_world))
       = [''2026/10/31 01:02:03.123457 [4242] '' @ CHR 0x1B # ''[31;1m[ERROR]''
          @ CHR 0x1B # ''[0m hello'' @ [CHR 0x0A]]
   \<and> trailing_newlines (''2026/10/31 01:02:03.123457 [4242] '' @ CHR 0x1B # ''[31;1m[ERROR]''
          @ CHR 0x1B # ''[0m hello'' @ [CHR 0x0A]) = 1
   \<and> lines_written (events (snd (snd (file_logger_log_level {} open_file_logger ''hello'' ERROR
                                         sample_world))))
       = [''2026/10/31 01:02:03.123457 [ERROR] hello'' @ [CHR 0x0A]]
   \<and> trailing_newlines (''2026/10/31 01:02:03.123457 [ERROR] hello'' @ [CHR 0x0A]) = 1"
proof -
  have ge: "LOG_LEVEL_CUTOFF {} \<le> level_code ERROR"
    by (simp add: LOG_LEVEL_CUTOFF_def)
  have op: "opened (file open_file_logger) \<noteq> None \<and> \<not> failed (file open_file_logger)"
    by (simp add: open_file_logger_def)
  have lab: "levels (std_out_logger_ctor default_config) ERROR = colored ERROR"
    by (simp add: std_out_logger_ctor_def default_config_def)
  have none: "lines_written (events sample_world) = []"
    by (simp add: sample_world_def lines_written_def)
  have tn: "trailing_newlines ''hello'' = 0"
    by (simp add: trailing_newlines_def)
  note inst = line_holds_message_then_newline [OF ge, of default_config "''hello''" sample_world
               open_file_logger]
  show ?thesis
    using ge op inst by (simp add: lab none tn sample_timestamp sample_pid)
qed

theorem message_ending_in_newline_counterexample:
  "LOG_LEVEL_CUTOFF {} \<le> level_code ERROR
   \<and> lines_written (events (std_out_logger_log_level {} (std_out_logger_ctor default_config)
                               (''bye'' @ [CHR 0x0A]) ERROR sample_world))
       = [''2026/10/31 01:02:03.123457 [4242] '' @ CHR 0x1B # ''[31;1m[ERROR]''
          @ CHR 0x1B # ''[0m bye'' @ [CHR 0x0A, CHR 0x0A]]
   \<and> trailing_newlines (''2026/10/31 01:02:03.123457 [4242] '' @ CHR 0x1B # ''[31;1m[ERROR]''
          @ CHR 0x1B # ''[0m bye'' @ [CHR 0x0A, CHR 0x0A]) = 2"
proof -
  have ge: "\<not> level_code ERROR < LOG_LEVEL_CUTOFF {}"
    by (simp add: LOG_LEVEL_CUTOFF_def)
  have lab: "levels (std_out_logger_ctor default_config) ERROR = colored ERROR"
    by (simp add: std_out_logger_ctor_def default_config_def)
  have none: "events sample_world = []"
    by (simp add: sample_world_def)
  have wr: "lines_written (events (std_out_logger_log_level {} (std_out_logger_ctor default_config)
                               (''bye'' @ [CHR 0x0A]) ERROR sample_world))
       = [''2026/10/31 01:02:03.123457 [4242] '' @ CHR 0x1B # ''[31;1m[ERROR]''
          @ CHR 0x1B # ''[0m bye'' @ [CHR 0x0A, CHR 0x0A]]"
    by (simp add: std_out_log_level_emits [OF ge] lab none sample_timestamp sample_pid
          lines_written_def)
  have tn: "trailing_newlines (''2026/10/31 01:02:03.123457 [4242] '' @ CHR 0x1B # ''[31;1m[ERROR]''
          @ CHR 0x1B # ''[0m bye'' @ [CHR 0x0A, CHR 0x0A]) = 2"
    by (simp add: trailing_newlines_def)
  show ?thesis
    using ge wr tn by simp
qed

section \<open>A first call that fails\<close>

text \<open>
  Claim C10. When the first call of \<^verbatim>\<open>get_logger\<close> has a configuration for which the
  factory throws, the exception reaches the caller, the singleton is not set and the
  state of the process is exactly what it was (a construction that fails has done nothing
  to the world); the next call of \<^verbatim>\<open>get_logger\<close> runs the factory again, on the
  configuration of that call. Type \<^verbatim>\<open>file\<close> without \<^verbatim>\<open>file_name\<close> is such a
  configuration.
\<close>

theorem failed_construction_is_retried:
  "(singleton p = None \<and> fst (produce config (env p)) = Inl ex \<longrightarrow>
      get_logger config p = (Inl ex, p)
      \<and> singleton (snd (get_logger config p)) = None
      \<and> get_logger config2 (snd (get_logger config p))
          = (case produce config2 (env p) of
               (Inl ex2, w1) \<Rightarrow> (Inl ex2, p\<lparr>env := w1\<rparr>)
             | (Inr l, w1) \<Rightarrow> (Inr l, p\<lparr>env := w1, singleton := Some l\<rparr>)))
   \<and> produce [''type'' \<mapsto> ''file''] w
       = (Inl (runtime_error ''No output file provided to file logger''), w)"
proof -
  have fail: "get_logger config p = (Inl ex, p)"
    if "singleton p = None" and "fst (produce config (env p)) = Inl ex"
  proof -
    have "snd (produce config (env p)) = env p"
      using that(2) by (rule produce_failure)
    then have "produce config (env p) = (Inl ex, env p)"
      using that(2) by (metis prod.collapse)
    then show ?thesis
      using that(1) by (simp add: get_logger_def)
  qed
  have retry: "get_logger config2 p
          = (case produce config2 (env p) of
               (Inl ex2, w1) \<Rightarrow> (Inl ex2, p\<lparr>env := w1\<rparr>)
             | (Inr l, w1) \<Rightarrow> (Inr l, p\<lparr>env := w1, singleton := Some l\<rparr>))"
    if "singleton p = None"
    using that by (simp add: get_logger_def)
  have nofile: "produce [''type'' \<mapsto> ''file''] w
       = (Inl (runtime_error ''No output file provided to file logger''), w)"
    by (simp add: produce_def creators_def file_logger_ctor_def)
  show ?thesis
    using fail retry nofile by simp
qed

theorem failed_construction_is_retried_witness:
  "get_logger [''type'' \<mapsto> ''file''] fresh_process
     = (Inl (runtime_error ''No output file provided to file logger''), fresh_process)
   \<and> get_logger default_config (snd (get_logger [''type'' \<mapsto> ''file''] fresh_process))
     = (Inr (Std_out_logger \<lparr>levels = colored\<rparr>),
        fresh_process\<lparr>singleton := Some (Std_out_logger \<lparr>levels = colored\<rparr>)\<rparr>)"
proof -
  have none: "singleton fresh_process = None"
    by (simp add: fresh_process_def)
  note inst = failed_construction_is_retried [of fresh_process "[''type'' \<mapsto> ''file'']"
      "runtime_error ''No output file provided to file logger''" default_config
      "env fresh_process"]
  have fails: "fst (produce [''type'' \<mapsto> ''file''] (env fresh_process))
                 = Inl (runtime_error ''No output file provided to file logger'')"
    using inst by simp
  have a: "get_logger [''type'' \<mapsto> ''file''] fresh_process
     = (Inl (runtime_error ''No output file provided to file logger''), fresh_process)"
    using inst none fails by blast
  have b: "get_logger default_config (snd (get_logger [''type'' \<mapsto> ''file''] fresh_process))
     = (Inr (Std_out_logger \<lparr>levels = colored\<rparr>),
        fresh_process\<lparr>singleton := Some (Std_out_logger \<lparr>levels = colored\<rparr>)\<rparr>)"
  proof -
    have "get_logger default_config (snd (get_logger [''type'' \<mapsto> ''file''] fresh_process))
          = (case produce default_config (env fresh_process) of
               (Inl ex2, w1) \<Rightarrow> (Inl ex2, fresh_process\<lparr>env := w1\<rparr>)
             | (Inr l, w1) \<Rightarrow> (Inr l, fresh_process\<lparr>env := w1, singleton := Some l\<rparr>))"
      using inst none fails by blast
    then show ?thesis
      by (simp add: produce_default)
  qed
  show ?thesis
    by (rule conjI [OF a b])
qed

end
